theory Spec2Isabelle
  imports Main
begin

section \<open>Python values and the operations the driver applies to them\<close>

text \<open>
  The driver of \<^verbatim>\<open>libcloud/storage/drivers/google_json.py\<close> handles parsed JSON:
  \<^verbatim>\<open>response.object\<close> is whatever the response class decoded, a dict for a JSON
  object and the empty string for an empty body. A dict is an association list of its
  entries; a key occurs in it at most once. Numbers are integers: the driver passes a
  number on and never computes with one.
\<close>

datatype pyval =
    PNone
  | PBool bool
  | PInt int
  | PStr string
  | PList "pyval list"
  | PDict "(string \<times> pyval) list"

type_synonym pydict = "(string \<times> pyval) list"

text \<open>
  The exceptions of the module. The first four are raised by the Python run time inside
  the driver; \<open>TransportError\<close> stands for any typed failure the connection's base class
  raises for a response whose status is not a success (\<^verbatim>\<open>ResourceNotFoundError\<close>,
  \<^verbatim>\<open>ResourceExistsError\<close>, \<^verbatim>\<open>GoogleBaseError\<close>, ...), with its name.
  \<open>MalformedResponse\<close> is the failure that section 7 of the specification names for a
  record without a required field; no statement of the module raises it.
\<close>

datatype error =
    TypeError
  | KeyError string
  | AttributeError string
  | NameError string
  | TransportError string
  | MalformedResponse

text \<open>\<^verbatim>\<open>d[k] = v\<close>, \<^verbatim>\<open>del d[k]\<close>, \<^verbatim>\<open>k in d\<close> and \<^verbatim>\<open>d.update(e)\<close> on a dict.\<close>

fun dict_set :: "string \<Rightarrow> pyval \<Rightarrow> pydict \<Rightarrow> pydict" where
  "dict_set k v [] = [(k, v)]"
| "dict_set k v ((k', v') # d) = (if k = k' then (k, v) # d else (k', v') # dict_set k v d)"

definition dict_del :: "string \<Rightarrow> pydict \<Rightarrow> pydict" where
  "dict_del k d = filter (\<lambda>kv. fst kv \<noteq> k) d"

definition dict_has :: "string \<Rightarrow> pydict \<Rightarrow> bool" where
  "dict_has k d = (map_of d k \<noteq> None)"

definition dict_update :: "pydict \<Rightarrow> pydict \<Rightarrow> pydict" where
  "dict_update d e = fold (\<lambda>kv acc. dict_set (fst kv) (snd kv) acc) e d"

text \<open>\<^verbatim>\<open>s in t\<close> on two strings: \<open>s\<close> occurs in \<open>t\<close> as a contiguous piece.\<close>

fun str_contains :: "string \<Rightarrow> string \<Rightarrow> bool" where
  "str_contains s [] = (s = [])"
| "str_contains s (c # t) = (take (length s) (c # t) = s \<or> str_contains s t)"

text \<open>
  \<^verbatim>\<open>k in v\<close> for a string \<open>k\<close>: key membership on a dict, element membership on a
  list, the substring test on a string, and \<^verbatim>\<open>TypeError\<close> on a value that is not a
  container.
\<close>

fun py_in :: "string \<Rightarrow> pyval \<Rightarrow> error + bool" where
  "py_in k (PDict d) = Inr (dict_has k d)"
| "py_in k (PList xs) = Inr (PStr k \<in> set xs)"
| "py_in k (PStr s) = Inr (str_contains k s)"
| "py_in k PNone = Inl TypeError"
| "py_in k (PBool b) = Inl TypeError"
| "py_in k (PInt i) = Inl TypeError"

text \<open>
  \<^verbatim>\<open>v[k]\<close> for a string \<open>k\<close>: the entry of a dict or \<^verbatim>\<open>KeyError\<close>; on any other
  value (\<^verbatim>\<open>None\<close>, a string, a list, a number) \<^verbatim>\<open>TypeError\<close>.
\<close>

fun py_getitem :: "pyval \<Rightarrow> string \<Rightarrow> error + pyval" where
  "py_getitem (PDict d) k = (case map_of d k of None \<Rightarrow> Inl (KeyError k) | Some v \<Rightarrow> Inr v)"
| "py_getitem PNone k = Inl TypeError"
| "py_getitem (PBool b) k = Inl TypeError"
| "py_getitem (PInt i) k = Inl TypeError"
| "py_getitem (PStr s) k = Inl TypeError"
| "py_getitem (PList xs) k = Inl TypeError"

text \<open>\<^verbatim>\<open>v.get(k, default)\<close>: only a dict has the method.\<close>

fun py_get :: "pyval \<Rightarrow> string \<Rightarrow> pyval \<Rightarrow> error + pyval" where
  "py_get (PDict d) k dflt = (case map_of d k of None \<Rightarrow> Inr dflt | Some v \<Rightarrow> Inr v)"
| "py_get PNone k dflt = Inl (AttributeError ''get'')"
| "py_get (PBool b) k dflt = Inl (AttributeError ''get'')"
| "py_get (PInt i) k dflt = Inl (AttributeError ''get'')"
| "py_get (PStr s) k dflt = Inl (AttributeError ''get'')"
| "py_get (PList xs) k dflt = Inl (AttributeError ''get'')"

text \<open>
  \<^verbatim>\<open>for item in v\<close>: the elements of a list, the keys of a dict, the characters of a
  string; \<^verbatim>\<open>TypeError\<close> on a value that cannot be iterated.
\<close>

fun py_iter :: "pyval \<Rightarrow> error + pyval list" where
  "py_iter (PList xs) = Inr xs"
| "py_iter (PDict d) = Inr (map (\<lambda>kv. PStr (fst kv)) d)"
| "py_iter (PStr s) = Inr (map (\<lambda>c. PStr [c]) s)"
| "py_iter PNone = Inl TypeError"
| "py_iter (PBool b) = Inl TypeError"
| "py_iter (PInt i) = Inl TypeError"

text \<open>
  \<^verbatim>\<open>'%s' % v\<close>: a string is inserted as it is. For any other value Python inserts
  \<^verbatim>\<open>str(v)\<close>, which is a function of the interpreter and is taken as the parameter
  \<open>str\<close>.
\<close>

definition fmt_s :: "(pyval \<Rightarrow> string) \<Rightarrow> pyval \<Rightarrow> string" where
  "fmt_s str v = (case v of PStr s \<Rightarrow> s | _ \<Rightarrow> str v)"

section \<open>The connection\<close>

text \<open>
  One call of the transport: the method, the action the driver passed, the query
  parameters after \<^verbatim>\<open>pre_connect_hook\<close>, and the body.
\<close>

record request =
  rq_method :: string
  rq_action :: string
  rq_params :: pydict
  rq_data :: "pyval option"

text \<open>
  What lies outside the module: the provider behind the authenticated HTTP connection,
  which answers a request (\<open>Inr\<close> the decoded \<^verbatim>\<open>response.object\<close>, \<open>Inl\<close> the typed
  failure of a status that is not a success) and may depend on the requests sent before,
  and Python's \<^verbatim>\<open>str\<close>.
\<close>

record platform =
  send :: "request list \<Rightarrow> request \<Rightarrow> error + pyval"
  str_of :: "pyval \<Rightarrow> string"

text \<open>
  \<^verbatim>\<open>GCSConnection\<close>. \<^verbatim>\<open>gcs_params\<close> is \<^verbatim>\<open>None\<close> or a reference to a dict; the
  dicts live in \<open>bags\<close>, since \<^verbatim>\<open>request\<close> updates the dict in place before it drops
  the reference. \<open>sent\<close> is the log of the requests handed to the transport.
\<close>

record GCSConnection =
  request_path :: string
  gcs_params :: "nat option"
  bags :: "nat \<Rightarrow> pydict"
  sent :: "request list"

definition API_VERSION :: string where
  "API_VERSION = ''v1''"

text \<open>\<^verbatim>\<open>GCSConnection.__init__\<close>, lines 51 to 57.\<close>

definition init_connection :: GCSConnection where
  "init_connection =
     \<lparr>request_path = ''/storage/'' @ API_VERSION, gcs_params = None,
      bags = (\<lambda>a. []), sent = []\<rparr>"

text \<open>The test \<^verbatim>\<open>if self.gcs_params:\<close>: false on \<^verbatim>\<open>None\<close> and on an empty dict.\<close>

definition gcs_params_truthy :: "GCSConnection \<Rightarrow> bool" where
  "gcs_params_truthy conn =
     (case gcs_params conn of None \<Rightarrow> False | Some a \<Rightarrow> bags conn a \<noteq> [])"

text \<open>
  \<^verbatim>\<open>GCSConnection.pre_connect_hook\<close>, lines 59 to 69, on the query parameters.
  Modelled from the spec: the inherited \<^verbatim>\<open>GoogleBaseConnection.pre_connect_hook\<close> is
  not among the sources; it belongs to the credential layer, which adds the
  authorization header and returns the parameters as they are.
\<close>

definition pre_connect_hook :: "GCSConnection \<Rightarrow> pydict \<Rightarrow> pydict" where
  "pre_connect_hook conn params =
     (if gcs_params_truthy conn
      then dict_update params (bags conn (the (gcs_params conn)))
      else params)"

text \<open>
  Modelled from the spec: the inherited \<^verbatim>\<open>GoogleBaseConnection.request\<close> is not among
  the sources. By sections 2 and 4.2 of the specification it takes an absent \<^verbatim>\<open>params\<close>
  as the empty dict, consults \<^verbatim>\<open>pre_connect_hook\<close> immediately before the send, sends
  the request and returns the parsed response, or raises the typed failure of a status
  that is not a success.
\<close>

definition base_request ::
  "platform \<Rightarrow> string \<Rightarrow> string \<Rightarrow> pydict option \<Rightarrow> pyval option \<Rightarrow> GCSConnection
    \<Rightarrow> (error + pyval) \<times> GCSConnection" where
  "base_request P action method params data conn =
     (let rq = \<lparr>rq_method = method, rq_action = action,
                rq_params = pre_connect_hook conn (case params of None \<Rightarrow> [] | Some p \<Rightarrow> p),
                rq_data = data\<rparr>
      in (send P (sent conn) rq, conn\<lparr>sent := sent conn @ [rq]\<rparr>))"

text \<open>
  \<^verbatim>\<open>GCSConnection.request\<close>, lines 71 to 88. An exception of the base request leaves
  the method at line 77. With a truthy \<^verbatim>\<open>gcs_params\<close> the dict is updated in place
  (lines 82 to 85; \<^verbatim>\<open>in\<close> and the subscript raise on a response that is not a dict) and
  the reference is dropped (line 86).
\<close>

definition request ::
  "platform \<Rightarrow> string \<Rightarrow> string \<Rightarrow> pydict option \<Rightarrow> pyval option \<Rightarrow> GCSConnection
    \<Rightarrow> (error + pyval) \<times> GCSConnection" where
  "request P action method params data conn =
     (case base_request P action method params data conn of
        (Inl e, conn') \<Rightarrow> (Inl e, conn')
      | (Inr response, conn') \<Rightarrow>
          (if gcs_params_truthy conn' then
             (let a = the (gcs_params conn'); bag = bags conn' a in
              case py_in ''nextPageToken'' response of
                Inl e \<Rightarrow> (Inl e, conn')
              | Inr True \<Rightarrow>
                  (case py_getitem response ''nextPageToken'' of
                     Inl e \<Rightarrow> (Inl e, conn')
                   | Inr t \<Rightarrow>
                       (Inr response,
                        conn'\<lparr>gcs_params := None,
                              bags := (bags conn')(a := dict_set ''pageToken'' t bag)\<rparr>))
              | Inr False \<Rightarrow>
                  (Inr response,
                   conn'\<lparr>gcs_params := None,
                         bags := (bags conn')
                           (a := if dict_has ''pageToken'' bag
                                 then dict_del ''pageToken'' bag else bag)\<rparr>))
           else (Inr response, conn')))"

section \<open>The driver\<close>

text \<open>
  \<^verbatim>\<open>GoogleStorageDriver.__init__\<close>, lines 99 to 101, keeps the project; \<^verbatim>\<open>project\<close>
  is \<^verbatim>\<open>None\<close> when the caller gives none.
\<close>

record GoogleStorageDriver =
  project :: pyval

text \<open>
  Modelled from the spec: the classes \<^verbatim>\<open>Container\<close> and \<^verbatim>\<open>Object\<close> of
  \<^verbatim>\<open>libcloud.storage.base\<close> are not among the sources. By section 3 of the
  specification they are plain value objects holding the fields the constructor is
  given; the back-reference to the driver is left out, and the \<^verbatim>\<open>container\<close> of an
  object is \<^verbatim>\<open>None\<close> when the constructor is given none.
\<close>

record Container =
  c_name :: pyval
  c_extra :: pyval

record Object =
  o_name :: pyval
  o_size :: pyval
  o_hash :: pyval
  o_extra :: pyval
  o_meta_data :: pyval
  o_container :: "Container option"

text \<open>
  Modelled from the spec: the truth value of a \<^verbatim>\<open>Container\<close> in \<^verbatim>\<open>if container:\<close>
  (line 120). The class is a plain value object that defines neither \<^verbatim>\<open>__bool__\<close> nor
  \<^verbatim>\<open>__len__\<close>, so each of its instances is true. In the same way the result of the
  constructor \<^verbatim>\<open>Object(...)\<close> is never \<^verbatim>\<open>None\<close> (line 131).
\<close>

definition container_truthy :: "Container \<Rightarrow> bool" where
  "container_truthy container = True"

definition object_is_not_None :: "Object \<Rightarrow> bool" where
  "object_is_not_None obj = True"

subsection \<open>The mapping functions\<close>

text \<open>\<^verbatim>\<open>_to_container\<close>, lines 176 to 178.\<close>

definition to_container :: "pyval \<Rightarrow> error + Container" where
  "to_container item =
     (case py_getitem item ''name'' of
        Inl e \<Rightarrow> Inl e
      | Inr n \<Rightarrow> Inr \<lparr>c_name = n, c_extra = item\<rparr>)"

text \<open>
  \<^verbatim>\<open>_to_containers\<close>, lines 169 to 174: the loop over \<^verbatim>\<open>data['items']\<close> with its
  accumulator \<^verbatim>\<open>containers\<close>.
\<close>

fun to_containers_loop :: "pyval list \<Rightarrow> Container list \<Rightarrow> error + Container list" where
  "to_containers_loop [] containers = Inr containers"
| "to_containers_loop (item # items) containers =
     (case to_container item of
        Inl e \<Rightarrow> Inl e
      | Inr container \<Rightarrow> to_containers_loop items (containers @ [container]))"

definition to_containers :: "pyval \<Rightarrow> error + Container list" where
  "to_containers data =
     (case py_getitem data ''items'' of
        Inl e \<Rightarrow> Inl e
      | Inr its \<Rightarrow>
          (case py_iter its of
             Inl e \<Rightarrow> Inl e
           | Inr items \<Rightarrow> to_containers_loop items []))"

text \<open>
  \<^verbatim>\<open>_to_object\<close>, lines 187 to 191: \<^verbatim>\<open>item.get\<close> first, then the three subscripts
  from left to right.
\<close>

definition to_object :: "pyval \<Rightarrow> Container option \<Rightarrow> error + Object" where
  "to_object item container =
     (case py_get item ''metadata'' (PDict []) of
        Inl e \<Rightarrow> Inl e
      | Inr meta_data \<Rightarrow>
          (case py_getitem item ''name'' of
             Inl e \<Rightarrow> Inl e
           | Inr n \<Rightarrow>
               (case py_getitem item ''size'' of
                  Inl e \<Rightarrow> Inl e
                | Inr sz \<Rightarrow>
                    (case py_getitem item ''md5Hash'' of
                       Inl e \<Rightarrow> Inl e
                     | Inr h \<Rightarrow>
                         Inr \<lparr>o_name = n, o_size = sz, o_hash = h, o_extra = item,
                              o_meta_data = meta_data, o_container = container\<rparr>))))"

text \<open>\<^verbatim>\<open>_to_objects\<close>, lines 180 to 185.\<close>

fun to_objects_loop :: "pyval list \<Rightarrow> Container \<Rightarrow> Object list \<Rightarrow> error + Object list" where
  "to_objects_loop [] container objects = Inr objects"
| "to_objects_loop (item # items) container objects =
     (case to_object item (Some container) of
        Inl e \<Rightarrow> Inl e
      | Inr obj \<Rightarrow> to_objects_loop items container (objects @ [obj]))"

definition to_objects :: "pyval \<Rightarrow> Container \<Rightarrow> error + Object list" where
  "to_objects data container =
     (case py_getitem data ''items'' of
        Inl e \<Rightarrow> Inl e
      | Inr its \<Rightarrow>
          (case py_iter its of
             Inl e \<Rightarrow> Inl e
           | Inr items \<Rightarrow> to_objects_loop items container []))"

subsection \<open>The operations\<close>

text \<open>
  Each operation takes the connection and returns it with its result, \<open>Inl\<close> when it
  raises. The driver \<open>drv\<close> is the \<^verbatim>\<open>self\<close> of the method.
\<close>

text \<open>\<^verbatim>\<open>iterate_containers\<close>, lines 103 to 108.\<close>

definition iterate_containers ::
  "platform \<Rightarrow> GoogleStorageDriver \<Rightarrow> GCSConnection
    \<Rightarrow> (error + Container list) \<times> GCSConnection" where
  "iterate_containers P drv conn =
     (case request P ''/b'' ''GET'' (Some [(''project'', project drv)]) None conn of
        (Inl e, conn') \<Rightarrow> (Inl e, conn')
      | (Inr response, conn') \<Rightarrow> (to_containers response, conn'))"

text \<open>\<^verbatim>\<open>iterate_container_objects\<close>, lines 110 to 114.\<close>

definition iterate_container_objects ::
  "platform \<Rightarrow> GoogleStorageDriver \<Rightarrow> Container \<Rightarrow> GCSConnection
    \<Rightarrow> (error + Object list) \<times> GCSConnection" where
  "iterate_container_objects P drv container conn =
     (case request P (''/b/'' @ fmt_s (str_of P) (c_name container) @ ''/o'') ''GET''
             None None conn of
        (Inl e, conn') \<Rightarrow> (Inl e, conn')
      | (Inr response, conn') \<Rightarrow> (to_objects response container, conn'))"

text \<open>
  \<^verbatim>\<open>get_container\<close>, lines 116 to 124. The name \<^verbatim>\<open>ContainerDoesNotExistError\<close> of the
  \<^verbatim>\<open>else\<close> branch is not imported by the module (lines 24 to 35), so evaluating the
  \<^verbatim>\<open>raise\<close> statement would end in \<^verbatim>\<open>NameError\<close>.
\<close>

definition get_container ::
  "platform \<Rightarrow> GoogleStorageDriver \<Rightarrow> string \<Rightarrow> GCSConnection
    \<Rightarrow> (error + Container) \<times> GCSConnection" where
  "get_container P drv container_name conn =
     (case request P (''/b/'' @ container_name) ''GET'' None None conn of
        (Inl e, conn') \<Rightarrow> (Inl e, conn')
      | (Inr response, conn') \<Rightarrow>
          (case to_container response of
             Inl e \<Rightarrow> (Inl e, conn')
           | Inr container \<Rightarrow>
               (if container_truthy container then (Inr container, conn')
                else (Inl (NameError ''ContainerDoesNotExistError''), conn'))))"

text \<open>
  \<^verbatim>\<open>get_object\<close>, lines 126 to 135; \<^verbatim>\<open>ObjectDoesNotExistError\<close> is not imported
  either.
\<close>

definition get_object ::
  "platform \<Rightarrow> GoogleStorageDriver \<Rightarrow> string \<Rightarrow> string \<Rightarrow> GCSConnection
    \<Rightarrow> (error + Object) \<times> GCSConnection" where
  "get_object P drv container_name object_name conn =
     (case get_container P drv container_name conn of
        (Inl e, conn') \<Rightarrow> (Inl e, conn')
      | (Inr container, conn') \<Rightarrow>
          (case request P (''/b/'' @ container_name @ ''/o/'' @ object_name) ''GET''
                  None None conn' of
             (Inl e, conn'') \<Rightarrow> (Inl e, conn'')
           | (Inr response, conn'') \<Rightarrow>
               (case to_object response (Some container) of
                  Inl e \<Rightarrow> (Inl e, conn'')
                | Inr obj \<Rightarrow>
                    (if object_is_not_None obj then (Inr obj, conn'')
                     else (Inl (NameError ''ObjectDoesNotExistError''), conn'')))))"

text \<open>
  \<^verbatim>\<open>delete_object\<close>, lines 137 to 144. \<^verbatim>\<open>obj.container.name\<close> raises
  \<^verbatim>\<open>AttributeError\<close> on an object whose container is \<^verbatim>\<open>None\<close>.
\<close>

definition delete_object ::
  "platform \<Rightarrow> GoogleStorageDriver \<Rightarrow> Object \<Rightarrow> GCSConnection
    \<Rightarrow> (error + bool) \<times> GCSConnection" where
  "delete_object P drv obj conn =
     (let object_name = o_name obj in
      case o_container obj of
        None \<Rightarrow> (Inl (AttributeError ''name''), conn)
      | Some container \<Rightarrow>
          (let container_name = c_name container in
           case request P (''b/'' @ fmt_s (str_of P) container_name @ ''/o/''
                            @ fmt_s (str_of P) object_name) ''DELETE'' None None conn of
             (Inl e, conn') \<Rightarrow> (Inl e, conn')
           | (Inr response, conn') \<Rightarrow>
               (if response = PStr [] then (Inr True, conn') else (Inr False, conn'))))"


text \<open>\<^verbatim>\<open>delete_container\<close>, lines 154 to 159.\<close>

definition delete_container ::
  "platform \<Rightarrow> GoogleStorageDriver \<Rightarrow> Container \<Rightarrow> GCSConnection
    \<Rightarrow> (error + bool) \<times> GCSConnection" where
  "delete_container P drv container conn =
     (case request P (''/b/'' @ fmt_s (str_of P) (c_name container)) ''DELETE''
             None None conn of
        (Inl e, conn') \<Rightarrow> (Inl e, conn')
      | (Inr response, conn') \<Rightarrow>
          (if response = PStr [] then (Inr True, conn') else (Inr False, conn')))"

text \<open>
  \<^verbatim>\<open>download_object\<close>, lines 161 to 166. The local file system, a map from a path to
  the content of the file there, is part of the state, so that what the method does to
  \<^verbatim>\<open>destination_path\<close> can be read off the result. The method ends after the request
  and so returns \<^verbatim>\<open>None\<close>.
\<close>

type_synonym files = "string \<Rightarrow> string option"

definition download_object ::
  "platform \<Rightarrow> GoogleStorageDriver \<Rightarrow> Object \<Rightarrow> string \<Rightarrow> bool \<Rightarrow> bool
    \<Rightarrow> GCSConnection \<times> files \<Rightarrow> (error + pyval) \<times> GCSConnection \<times> files" where
  "download_object P drv obj destination_path overwrite_existing delete_on_failure st =
     (case st of (conn, fs) \<Rightarrow>
        (case o_container obj of
           None \<Rightarrow> (Inl (AttributeError ''name''), conn, fs)
         | Some container \<Rightarrow>
             (let container_name = c_name container; object_name = o_name obj in
              case request P (''/b/'' @ fmt_s (str_of P) container_name @ ''/o/''
                               @ fmt_s (str_of P) object_name) ''GET''
                      (Some [(''alt'', PStr ''media'')]) None conn of
                (Inl e, conn') \<Rightarrow> (Inl e, conn', fs)
              | (Inr response, conn') \<Rightarrow> (Inr PNone, conn', fs))))"

section \<open>Sequences of operations\<close>






section \<open>Scenarios\<close>

text \<open>Concrete providers, buckets and objects on which the theorems below are run.\<close>

definition answering :: "error + pyval \<Rightarrow> platform" where
  "answering r = \<lparr>send = (\<lambda>log rq. r), str_of = (\<lambda>v. [])\<rparr>"

definition demo_driver :: GoogleStorageDriver where
  "demo_driver = \<lparr>project = PStr ''my-project''\<rparr>"

definition bucket_json :: "string \<Rightarrow> pyval" where
  "bucket_json n = PDict [(''kind'', PStr ''storage#bucket''), (''name'', PStr n)]"

definition bucket_x :: Container where
  "bucket_x = \<lparr>c_name = PStr ''bucket-x'', c_extra = bucket_json ''bucket-x''\<rparr>"

definition object_json :: "string \<Rightarrow> pyval" where
  "object_json n =
     PDict [(''name'', PStr n), (''bucket'', PStr ''bucket-x''), (''size'', PStr ''10''),
            (''md5Hash'', PStr ''abc123'')]"

definition file_txt :: Object where
  "file_txt =
     \<lparr>o_name = PStr ''file.txt'', o_size = PStr ''10'', o_hash = PStr ''abc123'',
      o_extra = object_json ''file.txt'', o_meta_data = PDict [],
      o_container = Some bucket_x\<rparr>"

text \<open>
  A provider with two pages of objects: the first page carries the token \<open>T\<close>, and the
  second page is the answer to a request whose query has \<^verbatim>\<open>pageToken=T\<close>.
\<close>

definition two_pages :: platform where
  "two_pages =
     \<lparr>send = (\<lambda>log rq.
         if map_of (rq_params rq) ''pageToken'' = Some (PStr ''T'')
         then Inr (PDict [(''items'', PList [object_json ''b.txt''])])
         else Inr (PDict [(''items'', PList [object_json ''a.txt'']),
                          (''nextPageToken'', PStr ''T'')])),
      str_of = (\<lambda>v. [])\<rparr>"

text \<open>A provider that holds the bucket \<open>bucket-x\<close> with the object \<open>file.txt\<close>.\<close>

definition one_bucket :: platform where
  "one_bucket =
     \<lparr>send = (\<lambda>log rq.
         if rq_action rq = ''/b/bucket-x'' then Inr (bucket_json ''bucket-x'')
         else if rq_action rq = ''/b/bucket-x/o/file.txt'' then Inr (object_json ''file.txt'')
         else Inl (TransportError ''ResourceNotFoundError'')),
      str_of = (\<lambda>v. [])\<rparr>"

text \<open>The answer to a listing of the buckets of a project with two buckets, on one page.\<close>

definition bucket_list :: pyval where
  "bucket_list = PDict [(''items'', PList [bucket_json ''bucket-x'', bucket_json ''bucket-a''])]"



section \<open>A connection without a pagination bag\<close>

text \<open>
  With \<^verbatim>\<open>gcs_params\<close> at \<^verbatim>\<open>None\<close> the hook adds nothing and \<^verbatim>\<open>request\<close> is the base
  request: one call of the transport, with the parameters the driver passed.
\<close>

lemma pre_connect_hook_None:
  "gcs_params conn = None \<Longrightarrow> pre_connect_hook conn params = params"
  by (simp add: pre_connect_hook_def gcs_params_truthy_def)

lemma request_None:
  "gcs_params conn = None \<Longrightarrow>
   request P action method params data conn =
     (send P (sent conn)
        \<lparr>rq_method = method, rq_action = action,
         rq_params = (case params of None \<Rightarrow> [] | Some p \<Rightarrow> p), rq_data = data\<rparr>,
      conn\<lparr>sent := sent conn @
        [\<lparr>rq_method = method, rq_action = action,
          rq_params = (case params of None \<Rightarrow> [] | Some p \<Rightarrow> p), rq_data = data\<rparr>]\<rparr>)"
  by (simp add: request_def base_request_def pre_connect_hook_None gcs_params_truthy_def
      Let_def split: sum.splits)

section \<open>Deleting a container\<close>

text \<open>
  Claim C4. On a connection whose \<^verbatim>\<open>gcs_params\<close> is \<^verbatim>\<open>None\<close> (the state of every
  connection the driver works on), \<^verbatim>\<open>delete_container\<close> sends one \<^verbatim>\<open>DELETE\<close> request to
  \<^verbatim>\<open>/b/{container.name}\<close>. When the transport raises a typed failure, the operation
  raises that failure and returns nothing. When the transport returns a body, the
  operation returns a boolean, which is true exactly when the body is the empty string
  and false for every other body, the empty JSON object included.
\<close>

theorem delete_container_contract:
  assumes "gcs_params conn = None"
  shows "sent (snd (delete_container P drv container conn)) =
           sent conn @ [\<lparr>rq_method = ''DELETE'',
                         rq_action = ''/b/'' @ fmt_s (str_of P) (c_name container),
                         rq_params = [], rq_data = None\<rparr>]
       \<and> fst (delete_container P drv container conn) =
           (case send P (sent conn)
                   \<lparr>rq_method = ''DELETE'',
                    rq_action = ''/b/'' @ fmt_s (str_of P) (c_name container),
                    rq_params = [], rq_data = None\<rparr> of
              Inl e \<Rightarrow> Inl e
            | Inr body \<Rightarrow> Inr (body = PStr []))"
  using assms by (simp add: delete_container_def request_None split: sum.splits)

theorem delete_container_contract_witness:
  "gcs_params init_connection = None
   \<and> fst (delete_container (answering (Inr (PStr []))) demo_driver bucket_x init_connection)
       = Inr True
   \<and> fst (delete_container (answering (Inr (PDict []))) demo_driver bucket_x init_connection)
       = Inr False
   \<and> fst (delete_container (answering (Inl (TransportError ''ResourceNotFoundError'')))
            demo_driver bucket_x init_connection)
       = Inl (TransportError ''ResourceNotFoundError'')
   \<and> sent (snd (delete_container (answering (Inr (PStr []))) demo_driver bucket_x
                  init_connection))
       = [\<lparr>rq_method = ''DELETE'', rq_action = ''/b/bucket-x'', rq_params = [],
           rq_data = None\<rparr>]"
proof -
  have h: "gcs_params init_connection = None"
    by (simp add: init_connection_def)
  show ?thesis
    using h
      delete_container_contract [OF h, of "answering (Inr (PStr []))" demo_driver bucket_x]
      delete_container_contract [OF h, of "answering (Inr (PDict []))" demo_driver bucket_x]
      delete_container_contract [OF h,
        of "answering (Inl (TransportError ''ResourceNotFoundError''))" demo_driver bucket_x]
    by (simp add: answering_def bucket_x_def fmt_s_def init_connection_def)
qed

section \<open>Deleting an object\<close>

text \<open>
  Claim C9. The claim has \<^verbatim>\<open>delete_object\<close> send its \<^verbatim>\<open>DELETE\<close> request to
  \<^verbatim>\<open>/b/{container.name}/o/{object.name}\<close>. Line 140 builds the action from the format
  \<^verbatim>\<open>'b/%s/o/%s'\<close>, without the leading slash that every other operation writes: for the
  object \<open>file.txt\<close> of \<open>bucket-x\<close> the action is \<^verbatim>\<open>b/bucket-x/o/file.txt\<close>. The rest
  of the claim holds there: an empty body gives \<^verbatim>\<open>True\<close>.
\<close>

theorem delete_object_action:
  "delete_object (answering (Inr (PStr []))) demo_driver file_txt init_connection =
     (Inr True,
      init_connection\<lparr>sent :=
        [\<lparr>rq_method = ''DELETE'', rq_action = ''b/bucket-x/o/file.txt'', rq_params = [],
          rq_data = None\<rparr>]\<rparr>)
   \<and> ''b/bucket-x/o/file.txt'' \<noteq> ''/b/bucket-x/o/file.txt''"
  by (simp add: delete_object_def request_None answering_def file_txt_def bucket_x_def
      fmt_s_def init_connection_def)

section \<open>Looking a container up\<close>

text \<open>
  Claim C3. The claim has \<^verbatim>\<open>get_container\<close> raise the typed failure for a missing
  container when the response holds no record. The \<^verbatim>\<open>else\<close> branch of lines 122 to 124
  is written for that, but \<^verbatim>\<open>_to_container\<close> subscripts the response before the test
  of line 120 is reached: on the response \<^verbatim>\<open>None\<close> and on an empty body the call ends
  in \<^verbatim>\<open>TypeError\<close>, on the empty record in \<^verbatim>\<open>KeyError\<close>.
\<close>

theorem get_container_missing:
  "fst (get_container (answering (Inr PNone)) demo_driver ''missing'' init_connection)
     = Inl TypeError
   \<and> fst (get_container (answering (Inr (PDict []))) demo_driver ''missing'' init_connection)
     = Inl (KeyError ''name'')
   \<and> fst (get_container (answering (Inr (PStr []))) demo_driver ''missing'' init_connection)
     = Inl TypeError"
  by (simp add: get_container_def request_None answering_def to_container_def
      init_connection_def)

section \<open>Downloading an object\<close>

text \<open>
  Claim C2. The claim has \<^verbatim>\<open>download_object\<close> write the body of the response to
  \<^verbatim>\<open>destination_path\<close> and fail on an existing file when \<^verbatim>\<open>overwrite_existing\<close> is
  false. The method sends the request of the claim, \<^verbatim>\<open>GET /b/bucket-x/o/file.txt\<close> with
  the query \<^verbatim>\<open>alt=media\<close>, and ends there. With no file at the destination it returns
  \<^verbatim>\<open>None\<close> and there is still no file; with a file at the destination and
  \<^verbatim>\<open>overwrite_existing\<close> false it sends the request all the same and returns
  \<^verbatim>\<open>None\<close> instead of failing.
\<close>

theorem download_object_stores_nothing:
  "fst (download_object (answering (Inr (PStr ''0123456789''))) demo_driver file_txt
          ''/tmp/file.txt'' False True (init_connection, Map.empty)) = Inr PNone
   \<and> snd (snd (download_object (answering (Inr (PStr ''0123456789''))) demo_driver file_txt
          ''/tmp/file.txt'' False True (init_connection, Map.empty))) ''/tmp/file.txt'' = None
   \<and> fst (download_object (answering (Inr (PStr ''0123456789''))) demo_driver file_txt
          ''/tmp/file.txt'' False True
          (init_connection, [''/tmp/file.txt'' \<mapsto> ''old''])) = Inr PNone
   \<and> sent (fst (snd (download_object (answering (Inr (PStr ''0123456789''))) demo_driver
          file_txt ''/tmp/file.txt'' False True
          (init_connection, [''/tmp/file.txt'' \<mapsto> ''old''])))) =
       [\<lparr>rq_method = ''GET'', rq_action = ''/b/bucket-x/o/file.txt'',
         rq_params = [(''alt'', PStr ''media'')], rq_data = None\<rparr>]"
  by (simp add: download_object_def request_None answering_def file_txt_def bucket_x_def
      fmt_s_def init_connection_def)

section \<open>From a JSON record to a container\<close>

text \<open>
  Claim C7, as the claim states it, fails on the kind of the failure: for a record without
  the field \<^verbatim>\<open>name\<close> the subscript of line 177 raises Python's \<^verbatim>\<open>KeyError\<close>, not the
  failure \<open>MalformedResponse\<close> of the specification. The module has no check of its own
  for a malformed record.
\<close>

theorem to_container_malformed_counterexample:
  "to_container (PDict [(''kind'', PStr ''storage#bucket'')]) = Inl (KeyError ''name'')
   \<and> to_container (PDict [(''kind'', PStr ''storage#bucket'')]) \<noteq> Inl MalformedResponse"
  by (simp add: to_container_def)

text \<open>
  Claim C7, amended. A JSON record without the field \<^verbatim>\<open>name\<close> makes \<^verbatim>\<open>_to_container\<close>
  fail with \<^verbatim>\<open>KeyError\<close> for \<^verbatim>\<open>name\<close>, and no container is returned. A record with
  the field gives the container of that name whose \<^verbatim>\<open>extra\<close> is the record itself, so
  every field of the record is found in \<^verbatim>\<open>extra\<close> with its value. A container that the
  mapping returns is never partly filled: its name is the field \<^verbatim>\<open>name\<close> of the item
  and its \<^verbatim>\<open>extra\<close> is the item.
\<close>

theorem to_container_requires_name:
  "(map_of d ''name'' = None \<longrightarrow> to_container (PDict d) = Inl (KeyError ''name''))
   \<and> (\<forall>n. map_of d ''name'' = Some n \<longrightarrow>
         to_container (PDict d) = Inr \<lparr>c_name = n, c_extra = PDict d\<rparr>)
   \<and> (\<forall>c. to_container item = Inr c \<longrightarrow>
         c_extra c = item \<and> py_getitem item ''name'' = Inr (c_name c)
         \<and> (\<forall>k. py_getitem (c_extra c) k = py_getitem item k))"
  by (auto simp: to_container_def split: sum.splits)

theorem to_container_requires_name_witness:
  "map_of [(''kind'', PStr ''storage#bucket'')] ''name'' = None
   \<and> to_container (PDict [(''kind'', PStr ''storage#bucket'')]) = Inl (KeyError ''name'')
   \<and> map_of [(''kind'', PStr ''storage#bucket''), (''name'', PStr ''bucket-x'')] ''name''
        = Some (PStr ''bucket-x'')
   \<and> to_container (bucket_json ''bucket-x'') = Inr bucket_x
   \<and> py_getitem (c_extra bucket_x) ''kind'' = Inr (PStr ''storage#bucket'')"
  using to_container_requires_name [of "[(''kind'', PStr ''storage#bucket'')]" "PNone"]
    to_container_requires_name
      [of "[(''kind'', PStr ''storage#bucket''), (''name'', PStr ''bucket-x'')]"
          "bucket_json ''bucket-x''"]
  by (simp add: bucket_json_def bucket_x_def)

section \<open>From a JSON item to an object\<close>

text \<open>
  Claim C6, as the claim states it, fails on the last clause: \<^verbatim>\<open>extra\<close> is not made of
  the fields that are not modelled separately. Line 189 passes \<^verbatim>\<open>extra=item\<close>, the whole
  item: for the item of \<open>file.txt\<close> the fields \<^verbatim>\<open>name\<close>, \<^verbatim>\<open>size\<close> and \<^verbatim>\<open>md5Hash\<close>
  are all found in \<^verbatim>\<open>extra\<close>.
\<close>

theorem to_object_extra_counterexample:
  "map_sum id o_extra (to_object (object_json ''file.txt'') (Some bucket_x))
     = Inr (object_json ''file.txt'')
   \<and> py_in ''name'' (object_json ''file.txt'') = Inr True
   \<and> py_in ''size'' (object_json ''file.txt'') = Inr True
   \<and> py_in ''md5Hash'' (object_json ''file.txt'') = Inr True"
  by (simp add: to_object_def object_json_def dict_has_def)

text \<open>
  Claim C6, amended. An item that is a JSON record with the fields \<^verbatim>\<open>name\<close>, \<^verbatim>\<open>size\<close>
  and \<^verbatim>\<open>md5Hash\<close> is mapped to the object with these three values, with \<^verbatim>\<open>meta_data\<close>
  the field \<^verbatim>\<open>metadata\<close> of the item or the empty dict when the item has none, and
  with \<^verbatim>\<open>extra\<close> the whole item, the separately modelled fields included. A record
  without a required field makes the mapping raise \<^verbatim>\<open>KeyError\<close> for the first of
  \<^verbatim>\<open>name\<close>, \<^verbatim>\<open>size\<close>, \<^verbatim>\<open>md5Hash\<close> that is missing, and an item that is no record
  makes it raise \<^verbatim>\<open>AttributeError\<close> at \<^verbatim>\<open>item.get\<close> (line 188); no object is returned
  then. An object that the mapping returns is never partly filled: each of its fields is
  the value the item gives.
\<close>

theorem to_object_mapping:
  "(\<forall>d n sz h. item = PDict d \<and> map_of d ''name'' = Some n \<and> map_of d ''size'' = Some sz
        \<and> map_of d ''md5Hash'' = Some h \<longrightarrow>
      to_object item container =
        Inr \<lparr>o_name = n, o_size = sz, o_hash = h, o_extra = item,
             o_meta_data = (case map_of d ''metadata'' of None \<Rightarrow> PDict [] | Some m \<Rightarrow> m),
             o_container = container\<rparr>)
   \<and> (\<forall>d. item = PDict d \<and> map_of d ''name'' = None \<longrightarrow>
      to_object item container = Inl (KeyError ''name''))
   \<and> (\<forall>d. item = PDict d \<and> map_of d ''name'' \<noteq> None \<and> map_of d ''size'' = None \<longrightarrow>
      to_object item container = Inl (KeyError ''size''))
   \<and> (\<forall>d. item = PDict d \<and> map_of d ''name'' \<noteq> None \<and> map_of d ''size'' \<noteq> None
        \<and> map_of d ''md5Hash'' = None \<longrightarrow>
      to_object item container = Inl (KeyError ''md5Hash''))
   \<and> ((\<forall>d. item \<noteq> PDict d) \<longrightarrow> to_object item container = Inl (AttributeError ''get''))
   \<and> (\<forall>obj. to_object item container = Inr obj \<longrightarrow>
      o_extra obj = item \<and> o_container obj = container
      \<and> py_getitem item ''name'' = Inr (o_name obj)
      \<and> py_getitem item ''size'' = Inr (o_size obj)
      \<and> py_getitem item ''md5Hash'' = Inr (o_hash obj)
      \<and> py_get item ''metadata'' (PDict []) = Inr (o_meta_data obj))"
proof -
  have a: "(\<forall>d. item \<noteq> PDict d) \<longrightarrow> to_object item container = Inl (AttributeError ''get'')"
    by (cases item) (simp_all add: to_object_def)
  have b: "\<forall>obj. to_object item container = Inr obj \<longrightarrow>
      o_extra obj = item \<and> o_container obj = container
      \<and> py_getitem item ''name'' = Inr (o_name obj)
      \<and> py_getitem item ''size'' = Inr (o_size obj)
      \<and> py_getitem item ''md5Hash'' = Inr (o_hash obj)
      \<and> py_get item ''metadata'' (PDict []) = Inr (o_meta_data obj)"
    by (auto simp: to_object_def split: sum.splits)
  have c: "\<forall>d n sz h. item = PDict d \<and> map_of d ''name'' = Some n
        \<and> map_of d ''size'' = Some sz \<and> map_of d ''md5Hash'' = Some h \<longrightarrow>
      to_object item container =
        Inr \<lparr>o_name = n, o_size = sz, o_hash = h, o_extra = item,
             o_meta_data = (case map_of d ''metadata'' of None \<Rightarrow> PDict [] | Some m \<Rightarrow> m),
             o_container = container\<rparr>"
    by (simp add: to_object_def split: option.splits)
  have d: "\<forall>d. item = PDict d \<and> map_of d ''name'' = None \<longrightarrow>
      to_object item container = Inl (KeyError ''name'')"
    by (simp add: to_object_def split: option.splits)
  have e: "\<forall>d. item = PDict d \<and> map_of d ''name'' \<noteq> None \<and> map_of d ''size'' = None
      \<longrightarrow> to_object item container = Inl (KeyError ''size'')"
    by (auto simp: to_object_def split: option.splits)
  have f: "\<forall>d. item = PDict d \<and> map_of d ''name'' \<noteq> None \<and> map_of d ''size'' \<noteq> None
        \<and> map_of d ''md5Hash'' = None \<longrightarrow>
      to_object item container = Inl (KeyError ''md5Hash'')"
    by (auto simp: to_object_def split: option.splits)
  from c d e f a b show ?thesis
    by (intro conjI)
qed

theorem to_object_mapping_witness:
  "to_object (object_json ''file.txt'') (Some bucket_x) = Inr file_txt
   \<and> to_object (PDict [(''size'', PStr ''10''), (''md5Hash'', PStr ''abc123'')]) None
       = Inl (KeyError ''name'')
   \<and> to_object (PDict [(''name'', PStr ''file.txt''), (''md5Hash'', PStr ''abc123'')]) None
       = Inl (KeyError ''size'')
   \<and> to_object (PDict [(''name'', PStr ''file.txt''), (''size'', PStr ''10'')]) None
       = Inl (KeyError ''md5Hash'')
   \<and> to_object PNone None = Inl (AttributeError ''get'')
   \<and> to_object (PStr []) None = Inl (AttributeError ''get'')
   \<and> o_extra file_txt = object_json ''file.txt''
   \<and> py_getitem (object_json ''file.txt'') ''name'' = Inr (o_name file_txt)"
proof -
  note T = to_object_mapping
  have 1: "to_object (object_json ''file.txt'') (Some bucket_x) = Inr file_txt"
    using T [where item = "object_json ''file.txt''" and container = "Some bucket_x",
        THEN conjunct1]
    by (simp add: object_json_def file_txt_def)
  have 2: "to_object (PDict [(''size'', PStr ''10''), (''md5Hash'', PStr ''abc123'')]) None
       = Inl (KeyError ''name'')"
    using T [where item = "PDict [(''size'', PStr ''10''), (''md5Hash'', PStr ''abc123'')]"
        and container = None, THEN conjunct2, THEN conjunct1]
    by simp
  have 3: "to_object (PDict [(''name'', PStr ''file.txt''), (''md5Hash'', PStr ''abc123'')]) None
       = Inl (KeyError ''size'')"
    using T [where item = "PDict [(''name'', PStr ''file.txt''), (''md5Hash'', PStr ''abc123'')]"
        and container = None, THEN conjunct2, THEN conjunct2, THEN conjunct1]
    by simp
  have 4: "to_object (PDict [(''name'', PStr ''file.txt''), (''size'', PStr ''10'')]) None
       = Inl (KeyError ''md5Hash'')"
    using T [where item = "PDict [(''name'', PStr ''file.txt''), (''size'', PStr ''10'')]"
        and container = None, THEN conjunct2, THEN conjunct2, THEN conjunct2, THEN conjunct1]
    by simp
  have 5: "to_object PNone None = Inl (AttributeError ''get'')"
    using T [where item = PNone and container = None, THEN conjunct2, THEN conjunct2,
        THEN conjunct2, THEN conjunct2, THEN conjunct1]
    by simp
  have 6: "to_object (PStr []) None = Inl (AttributeError ''get'')"
    using T [where item = "PStr []" and container = None, THEN conjunct2, THEN conjunct2,
        THEN conjunct2, THEN conjunct2, THEN conjunct1]
    by simp
  have 7: "o_extra file_txt = object_json ''file.txt''
      \<and> py_getitem (object_json ''file.txt'') ''name'' = Inr (o_name file_txt)"
    using T [where item = "object_json ''file.txt''" and container = "Some bucket_x",
        THEN conjunct2, THEN conjunct2, THEN conjunct2, THEN conjunct2, THEN conjunct2,
        THEN spec, THEN mp, OF 1]
    by blast
  from 1 2 3 4 5 6 7 show ?thesis
    by blast
qed

section \<open>Listing the containers\<close>

text \<open>
  The loop of \<^verbatim>\<open>_to_containers\<close> on a list of bucket records: one container for each
  record, in the order of the records, appended to the accumulator.
\<close>

lemma to_containers_loop_records:
  "\<forall>it \<in> set its. \<exists>d n. it = PDict d \<and> map_of d ''name'' = Some n \<Longrightarrow>
   \<exists>cs. to_containers_loop its acc = Inr (acc @ cs) \<and> length cs = length its
     \<and> map (\<lambda>c. Inr (c_name c)) cs = map (\<lambda>it. py_getitem it ''name'') its
     \<and> map c_extra cs = its"
proof (induction its arbitrary: acc)
  case Nil
  then show ?case by simp
next
  case (Cons it its)
  then obtain d n where it: "it = PDict d" "map_of d ''name'' = Some n"
    by auto
  from Cons.prems have "\<forall>it \<in> set its. \<exists>d n. it = PDict d \<and> map_of d ''name'' = Some n"
    by simp
  from Cons.IH [OF this, of "acc @ [\<lparr>c_name = n, c_extra = it\<rparr>]"]
  obtain cs where cs: "to_containers_loop its (acc @ [\<lparr>c_name = n, c_extra = it\<rparr>])
        = Inr ((acc @ [\<lparr>c_name = n, c_extra = it\<rparr>]) @ cs)"
      "length cs = length its"
      "map (\<lambda>c. Inr (c_name c)) cs = map (\<lambda>it. py_getitem it ''name'') its"
      "map c_extra cs = its"
    by blast
  show ?case
    by (rule exI [of _ "\<lparr>c_name = n, c_extra = it\<rparr> # cs"])
      (use it cs in \<open>simp add: to_container_def\<close>)
qed

text \<open>
  Claim C8. On a connection whose \<^verbatim>\<open>gcs_params\<close> is \<^verbatim>\<open>None\<close>, when the provider
  answers \<^verbatim>\<open>GET /b\<close> with the query \<^verbatim>\<open>{project: self.project}\<close> by a record whose
  \<^verbatim>\<open>items\<close> is a list of \<open>k\<close> bucket records (a continuation token in the answer
  changes nothing), \<^verbatim>\<open>iterate_containers\<close> sends exactly that one request and returns
  \<open>k\<close> containers whose names are the \<^verbatim>\<open>name\<close> fields of the records, in their order.
\<close>

theorem iterate_containers_lists_all:
  assumes "gcs_params conn = None"
    and "send P (sent conn)
           \<lparr>rq_method = ''GET'', rq_action = ''/b'',
            rq_params = [(''project'', project drv)], rq_data = None\<rparr> = Inr (PDict d)"
    and "map_of d ''items'' = Some (PList its)"
    and "\<forall>it \<in> set its. \<exists>r n. it = PDict r \<and> map_of r ''name'' = Some n"
  shows "\<exists>cs. fst (iterate_containers P drv conn) = Inr cs
     \<and> length cs = length its
     \<and> map (\<lambda>c. Inr (c_name c)) cs = map (\<lambda>it. py_getitem it ''name'') its
     \<and> sent (snd (iterate_containers P drv conn)) =
         sent conn @ [\<lparr>rq_method = ''GET'', rq_action = ''/b'',
                       rq_params = [(''project'', project drv)], rq_data = None\<rparr>]"
proof -
  from to_containers_loop_records [OF assms(4), of "[]"]
  obtain cs where cs: "to_containers_loop its [] = Inr cs" "length cs = length its"
      "map (\<lambda>c. Inr (c_name c)) cs = map (\<lambda>it. py_getitem it ''name'') its"
    by auto
  show ?thesis
    by (rule exI [of _ cs])
      (use assms(1,2,3) cs in \<open>simp add: iterate_containers_def request_None to_containers_def\<close>)
qed

theorem iterate_containers_lists_all_witness:
  "gcs_params init_connection = None
   \<and> send (answering (Inr bucket_list)) (sent init_connection)
        \<lparr>rq_method = ''GET'', rq_action = ''/b'',
         rq_params = [(''project'', project demo_driver)], rq_data = None\<rparr>
       = Inr bucket_list
   \<and> py_getitem bucket_list ''items''
       = Inr (PList [bucket_json ''bucket-x'', bucket_json ''bucket-a''])
   \<and> (\<exists>cs. fst (iterate_containers (answering (Inr bucket_list)) demo_driver init_connection)
          = Inr cs
        \<and> length cs = 2
        \<and> map c_name cs = [PStr ''bucket-x'', PStr ''bucket-a''])"
proof -
  have h: "gcs_params init_connection = None"
    by (simp add: init_connection_def)
  have s: "send (answering (Inr bucket_list)) (sent init_connection)
        \<lparr>rq_method = ''GET'', rq_action = ''/b'',
         rq_params = [(''project'', project demo_driver)], rq_data = None\<rparr>
       = Inr (PDict [(''items'', PList [bucket_json ''bucket-x'', bucket_json ''bucket-a''])])"
    by (simp add: answering_def bucket_list_def)
  have m: "map_of [(''items'', PList [bucket_json ''bucket-x'', bucket_json ''bucket-a''])]
      ''items'' = Some (PList [bucket_json ''bucket-x'', bucket_json ''bucket-a''])"
    by simp
  have r: "\<forall>it \<in> set [bucket_json ''bucket-x'', bucket_json ''bucket-a''].
      \<exists>r n. it = PDict r \<and> map_of r ''name'' = Some n"
    by (simp add: bucket_json_def)
  from iterate_containers_lists_all [OF h s m r]
  obtain cs where cs:
      "fst (iterate_containers (answering (Inr bucket_list)) demo_driver init_connection)
         = Inr cs"
      "length cs = length [bucket_json ''bucket-x'', bucket_json ''bucket-a'']"
      "map (\<lambda>c. Inr (c_name c)) cs
         = map (\<lambda>it. py_getitem it ''name'') [bucket_json ''bucket-x'', bucket_json ''bucket-a'']"
    by blast
  from cs(3) have "map (projr \<circ> (\<lambda>c. Inr (c_name c) :: error + pyval)) cs
      = map projr [Inr (PStr ''bucket-x''), Inr (PStr ''bucket-a'') :: error + pyval]"
    unfolding map_map [symmetric] by (simp add: bucket_json_def)
  then have n: "map c_name cs = [PStr ''bucket-x'', PStr ''bucket-a'']"
    by (simp add: comp_def)
  show ?thesis
    using h s cs(1,2) n by (auto simp: bucket_list_def)
qed

section \<open>Looking an object up\<close>

text \<open>
  The loop of \<^verbatim>\<open>_to_objects\<close> gives every object the container it was called with.
\<close>

lemma to_objects_loop_container:
  "to_objects_loop its c acc = Inr objs \<Longrightarrow> \<forall>obj \<in> set acc. o_container obj = Some c \<Longrightarrow>
   \<forall>obj \<in> set objs. o_container obj = Some c"
proof (induction its arbitrary: acc)
  case Nil
  then show ?case by simp
next
  case (Cons it its)
  from Cons.prems(1) obtain obj where obj: "to_object it (Some c) = Inr obj"
      and rest: "to_objects_loop its c (acc @ [obj]) = Inr objs"
    by (auto split: sum.splits)
  from obj have "o_container obj = Some c"
    by (auto simp: to_object_def split: sum.splits)
  with Cons.prems(2) have "\<forall>x \<in> set (acc @ [obj]). o_container x = Some c"
    by simp
  from Cons.IH [OF rest this] show ?case .
qed

text \<open>
  Claim C5. On a connection whose \<^verbatim>\<open>gcs_params\<close> is \<^verbatim>\<open>None\<close>, \<^verbatim>\<open>get_object\<close> begins
  with the call of \<^verbatim>\<open>get_container\<close>, whose request \<^verbatim>\<open>GET /b/{container_name}\<close> is the
  first one sent. When that call raises, \<^verbatim>\<open>get_object\<close> raises the same failure in the
  same state: no second request is sent and no object is built. When it returns a
  container, the request \<^verbatim>\<open>GET /b/{container_name}/o/{object_name}\<close> follows, and an
  object that \<^verbatim>\<open>get_object\<close> returns holds exactly that container. The objects of a
  listing hold the container the listing was called with, so no operation of the driver
  returns an object without a container.
\<close>

theorem get_object_resolves_container_first:
  assumes "gcs_params conn = None"
  shows "\<exists>r conn1.
      get_container P drv container_name conn = (r, conn1)
    \<and> sent conn1 = sent conn @
         [\<lparr>rq_method = ''GET'', rq_action = ''/b/'' @ container_name, rq_params = [],
           rq_data = None\<rparr>]
    \<and> (case r of
          Inl e \<Rightarrow> get_object P drv container_name object_name conn = (Inl e, conn1)
        | Inr container \<Rightarrow>
            sent (snd (get_object P drv container_name object_name conn)) = sent conn1 @
              [\<lparr>rq_method = ''GET'',
                rq_action = ''/b/'' @ container_name @ ''/o/'' @ object_name,
                rq_params = [], rq_data = None\<rparr>]
          \<and> (\<forall>obj. fst (get_object P drv container_name object_name conn) = Inr obj \<longrightarrow>
                o_container obj = Some container))
    \<and> (\<forall>c objs. fst (iterate_container_objects P drv c conn) = Inr objs \<longrightarrow>
          (\<forall>obj \<in> set objs. o_container obj = Some c))"
proof -
  obtain r conn1 where g: "get_container P drv container_name conn = (r, conn1)"
    by (cases "get_container P drv container_name conn")
  from g assms have s: "sent conn1 = sent conn @
         [\<lparr>rq_method = ''GET'', rq_action = ''/b/'' @ container_name, rq_params = [],
           rq_data = None\<rparr>]" and n: "gcs_params conn1 = None"
    by (auto simp: get_container_def request_None split: sum.splits if_splits)
  have c: "case r of
          Inl e \<Rightarrow> get_object P drv container_name object_name conn = (Inl e, conn1)
        | Inr container \<Rightarrow>
            sent (snd (get_object P drv container_name object_name conn)) = sent conn1 @
              [\<lparr>rq_method = ''GET'',
                rq_action = ''/b/'' @ container_name @ ''/o/'' @ object_name,
                rq_params = [], rq_data = None\<rparr>]
          \<and> (\<forall>obj. fst (get_object P drv container_name object_name conn) = Inr obj \<longrightarrow>
                o_container obj = Some container)"
    using g n
    by (auto simp: get_object_def request_None to_object_def object_is_not_None_def
        split: sum.splits)
  have l: "\<forall>c objs. fst (iterate_container_objects P drv c conn) = Inr objs \<longrightarrow>
          (\<forall>obj \<in> set objs. o_container obj = Some c)"
  proof (intro allI impI)
    fix c objs
    assume "fst (iterate_container_objects P drv c conn) = Inr objs"
    then obtain its where "to_objects_loop its c [] = Inr objs"
      using assms
      by (auto simp: iterate_container_objects_def request_None to_objects_def
          split: sum.splits)
    from to_objects_loop_container [OF this] show "\<forall>obj \<in> set objs. o_container obj = Some c"
      by simp
  qed
  from g s c l show ?thesis by blast
qed

theorem get_object_resolves_container_first_witness:
  "gcs_params init_connection = None
   \<and> fst (get_object one_bucket demo_driver ''bucket-x'' ''file.txt'' init_connection)
       = Inr file_txt
   \<and> o_container file_txt = Some bucket_x
   \<and> sent (snd (get_object one_bucket demo_driver ''bucket-x'' ''file.txt'' init_connection))
       = [\<lparr>rq_method = ''GET'', rq_action = ''/b/bucket-x'', rq_params = [],
           rq_data = None\<rparr>,
          \<lparr>rq_method = ''GET'', rq_action = ''/b/bucket-x/o/file.txt'', rq_params = [],
           rq_data = None\<rparr>]
   \<and> fst (get_object one_bucket demo_driver ''missing'' ''file.txt'' init_connection)
       = Inl (TransportError ''ResourceNotFoundError'')
   \<and> sent (snd (get_object one_bucket demo_driver ''missing'' ''file.txt'' init_connection))
       = [\<lparr>rq_method = ''GET'', rq_action = ''/b/missing'', rq_params = [],
           rq_data = None\<rparr>]"
proof -
  have h: "gcs_params init_connection = None"
    by (simp add: init_connection_def)
  have g1: "get_container one_bucket demo_driver ''bucket-x'' init_connection =
      (Inr bucket_x, init_connection\<lparr>sent :=
          [\<lparr>rq_method = ''GET'', rq_action = ''/b/bucket-x'', rq_params = [],
            rq_data = None\<rparr>]\<rparr>)"
    by (simp add: get_container_def request_None h one_bucket_def to_container_def
        bucket_json_def bucket_x_def container_truthy_def)
      (simp add: init_connection_def)
  have g2: "get_container one_bucket demo_driver ''missing'' init_connection =
      (Inl (TransportError ''ResourceNotFoundError''), init_connection\<lparr>sent :=
          [\<lparr>rq_method = ''GET'', rq_action = ''/b/missing'', rq_params = [],
            rq_data = None\<rparr>]\<rparr>)"
    by (simp add: get_container_def request_None h one_bucket_def)
      (simp add: init_connection_def)
  have ob: "fst (get_object one_bucket demo_driver ''bucket-x'' ''file.txt'' init_connection)
      = Inr file_txt"
    by (simp add: get_object_def g1)
      (simp add: request_None h one_bucket_def to_object_def object_json_def file_txt_def
        object_is_not_None_def)
  show ?thesis
    using h ob
      get_object_resolves_container_first [OF h, of one_bucket demo_driver "''bucket-x''"
        "''file.txt''"]
      get_object_resolves_container_first [OF h, of one_bucket demo_driver "''missing''"
        "''file.txt''"]
    unfolding g1 g2
    by (auto simp: init_connection_def)
qed

section \<open>Listing the objects of a container\<close>

text \<open>
  Claim C1. The claim has one call of \<^verbatim>\<open>iterate_container_objects\<close> on a two-page
  result send two requests, the second with \<^verbatim>\<open>pageToken=T\<close>. The connection is written
  for that (lines 67 to 68 and 79 to 86), but the method of lines 110 to 114 never sets
  \<^verbatim>\<open>gcs_params\<close> and has no loop. On the provider \<open>two_pages\<close>, whose first page carries
  the token \<open>T\<close> and which answers a request with \<^verbatim>\<open>pageToken=T\<close> by the second page,
  the call sends one request without a token and returns the object \<open>a.txt\<close> of the first
  page only: the object \<open>b.txt\<close> of the second page is lost. The last part of the claim
  holds there: \<^verbatim>\<open>gcs_params\<close> is \<^verbatim>\<open>None\<close> after the call.
\<close>

theorem iterate_container_objects_loses_second_page:
  "sent (snd (iterate_container_objects two_pages demo_driver bucket_x init_connection)) =
     [\<lparr>rq_method = ''GET'', rq_action = ''/b/bucket-x/o'', rq_params = [], rq_data = None\<rparr>]
   \<and> length (sent (snd (iterate_container_objects two_pages demo_driver bucket_x
         init_connection))) \<noteq> 2
   \<and> map_sum id (map o_name)
         (fst (iterate_container_objects two_pages demo_driver bucket_x init_connection))
       = Inr [PStr ''a.txt'']
   \<and> send two_pages
         [\<lparr>rq_method = ''GET'', rq_action = ''/b/bucket-x/o'', rq_params = [],
           rq_data = None\<rparr>]
         \<lparr>rq_method = ''GET'', rq_action = ''/b/bucket-x/o'',
          rq_params = [(''pageToken'', PStr ''T'')], rq_data = None\<rparr>
       = Inr (PDict [(''items'', PList [object_json ''b.txt''])])
   \<and> gcs_params (snd (iterate_container_objects two_pages demo_driver bucket_x
         init_connection)) = None"
  by (simp add: iterate_container_objects_def request_None two_pages_def bucket_x_def
      fmt_s_def init_connection_def to_objects_def to_object_def object_json_def)

section \<open>The pagination bag\<close>










end
